theory Spec2Isabelle
  imports Complex_Main "HOL-Library.Word"
begin

section \<open>The webhook client of the voice chat: \<open>WebhookService\<close>\<close>

text \<open>
  The class \<open>WebhookService\<close> uploads a recorded audio blob to a webhook, retries failed
  attempts with exponential backoff and turns the reply of the server into the value its
  promise resolves with. The embedding follows \<open>sendAudioToWebhook\<close> statement by statement.
  What the browser supplies (the network, \<open>JSON.parse\<close>, \<open>JSON.stringify\<close>, \<open>atob\<close>,
  \<open>URL.createObjectURL\<close>, \<open>navigator.userAgent\<close>) is a parameter of the model; console
  output is left out.

  A JavaScript string is a \<open>string\<close> whose characters are its code units; only code units
  below 256 are representable, which covers every literal of the source (\<open>CHR 0xE4\<close> is
  a-umlaut, \<open>CHR 0xF6\<close> is o-umlaut).
\<close>

subsection \<open>JavaScript values\<close>

text \<open>
  The values that \<open>response.json()\<close> and \<open>JSON.parse\<close> produce, and \<open>undefined\<close> for a
  missing property. A number is carried as the value of its double; \<open>JSON.parse\<close> yields
  no NaN. An object is the list of its own properties, each name once.
\<close>

datatype jsval =
    JUndefined
  | JNull
  | JBool bool
  | JNum real
  | JStr string
  | JArr "jsval list"
  | JObj "(string \<times> jsval) list"

text \<open>Every value thrown in \<open>sendAudioToWebhook\<close> is an instance of \<open>Error\<close>.\<close>

datatype js_error =
    Error string                \<comment> \<open>\<open>new Error(message)\<close>\<close>
  | TypeError string            \<comment> \<open>a \<open>TypeError\<close> with its message\<close>
  | SyntaxError string          \<comment> \<open>a \<open>SyntaxError\<close> with its message\<close>
  | DOMException string string  \<comment> \<open>a \<open>DOMException\<close> with its name and its message\<close>

fun name :: "js_error \<Rightarrow> string" where
  "name (Error m) = ''Error''"
| "name (TypeError m) = ''TypeError''"
| "name (SyntaxError m) = ''SyntaxError''"
| "name (DOMException n m) = n"

fun message :: "js_error \<Rightarrow> string" where
  "message (Error m) = m"
| "message (TypeError m) = m"
| "message (SyntaxError m) = m"
| "message (DOMException n m) = m"

fun instanceof_TypeError :: "js_error \<Rightarrow> bool" where
  "instanceof_TypeError (TypeError m) = True"
| "instanceof_TypeError _ = False"

text \<open>\<open>Error.prototype.toString\<close>, which the template literal \<open>`${error}`\<close> applies.\<close>

definition error_toString :: "js_error \<Rightarrow> string" where
  "error_toString e =
     (if name e = [] then message e
      else if message e = [] then name e
      else name e @ '': '' @ message e)"

text \<open>ToBoolean: what \<open>if\<close>, \<open>&&\<close> and \<open>||\<close> test.\<close>

fun truthy :: "jsval \<Rightarrow> bool" where
  "truthy JUndefined = False"
| "truthy JNull = False"
| "truthy (JBool b) = b"
| "truthy (JNum x) = (x \<noteq> 0)"
| "truthy (JStr s) = (s \<noteq> [])"
| "truthy (JArr xs) = True"
| "truthy (JObj kvs) = True"

text \<open>\<open>a && b\<close> and \<open>a || b\<close> return one of their operands.\<close>

definition js_and :: "jsval \<Rightarrow> jsval \<Rightarrow> jsval" where
  "js_and a b = (if truthy a then b else a)"

definition js_or :: "jsval \<Rightarrow> jsval \<Rightarrow> jsval" where
  "js_or a b = (if truthy a then a else b)"

text \<open>
  Reading a property \<open>v.k\<close>. On \<open>null\<close> and \<open>undefined\<close> it throws a \<open>TypeError\<close> (the
  message is the one of V8; no engine's message contains \<open>Failed to fetch\<close>, which is all
  the error handler looks for). The source reads only \<open>success\<close>, \<open>textResponse\<close>,
  \<open>audioResponse\<close>, \<open>answer\<close> and \<open>response\<close>, which no prototype defines, so on a value
  that is not an object the result is \<open>undefined\<close>.
\<close>

fun getprop :: "jsval \<Rightarrow> string \<Rightarrow> js_error + jsval" where
  "getprop JNull k =
     Inl (TypeError (''Cannot read properties of null (reading '' @ [CHR 0x27] @ k @ [CHR 0x27] @ '')''))"
| "getprop JUndefined k =
     Inl (TypeError (''Cannot read properties of undefined (reading '' @ [CHR 0x27] @ k @ [CHR 0x27] @ '')''))"
| "getprop (JObj kvs) k = Inr (case map_of kvs k of Some v \<Rightarrow> v | None \<Rightarrow> JUndefined)"
| "getprop v k = Inr JUndefined"

subsection \<open>Strings\<close>

fun startsWith :: "string \<Rightarrow> string \<Rightarrow> bool" where
  "startsWith s [] = True"
| "startsWith [] (c # cs) = False"
| "startsWith (d # ds) (c # cs) = (d = c \<and> startsWith ds cs)"

text \<open>\<open>s.includes(sub)\<close>: \<open>sub\<close> occurs in \<open>s\<close> as a substring.\<close>

fun str_includes :: "string \<Rightarrow> string \<Rightarrow> bool" where
  "str_includes [] sub = (sub = [])"
| "str_includes (c # cs) sub = (startsWith (c # cs) sub \<or> str_includes cs sub)"

text \<open>Case folding of the letters A to Z, as the flag \<open>i\<close> of a regular expression compares them.\<close>

definition lower :: "char \<Rightarrow> char" where
  "lower c =
     (let n = (of_char c :: nat)
      in if 65 \<le> n \<and> n \<le> 90 then char_of (n + 32) else c)"

text \<open>The decimal digits of a number, as a template literal prints it.\<close>

fun decimal :: "nat \<Rightarrow> string" where
  "decimal n =
     (if n < 10 then [char_of (48 + n)]
      else decimal (n div 10) @ [char_of (48 + n mod 10)])"

subsection \<open>Blobs, responses and the platform\<close>

record blob =
  content :: "8 word list"
  type :: string

text \<open>
  How reading the body settles: \<open>response.json()\<close> resolves with a value; or it rejects
  and \<open>responseClone.text()\<close> resolves with the text; or both reject.
\<close>

datatype body =
    Json jsval
  | Text js_error string
  | Unreadable js_error js_error

record response =
  status :: nat
  statusText :: string
  body :: body

text \<open>\<open>response.ok\<close>: the status is in the range 200 to 299.\<close>

definition ok :: "response \<Rightarrow> bool" where
  "ok r = (200 \<le> status r \<and> status r \<le> 299)"

text \<open>How the race of \<open>fetch\<close> against the timeout of one attempt settles.\<close>

datatype fetch_outcome =
    Rejects js_error      \<comment> \<open>\<open>fetch\<close> rejects first\<close>
  | TimesOut              \<comment> \<open>the timer of \<open>TIMEOUT_MS\<close> fires first\<close>
  | Responds response     \<comment> \<open>\<open>fetch\<close> resolves first\<close>

record platform =
  userAgent :: string                            \<comment> \<open>\<open>navigator.userAgent\<close>\<close>
  JSON_parse :: "jsval \<Rightarrow> jsval option"          \<comment> \<open>\<open>None\<close>: throws a \<open>SyntaxError\<close>\<close>
  JSON_stringify :: "jsval \<Rightarrow> string"
  atob :: "string \<Rightarrow> string option"              \<comment> \<open>\<open>None\<close>: throws; the result is a binary string\<close>
  blob_url :: "nat \<Rightarrow> string"                    \<comment> \<open>the URL minted for the n-th registered blob\<close>
  fetch :: "nat \<Rightarrow> fetch_outcome"                \<comment> \<open>the outcome of the n-th attempt of a call\<close>

text \<open>What a call does to the outside, in order.\<close>

datatype event =
    Sleep nat                       \<comment> \<open>\<open>setTimeout\<close> awaited, in milliseconds\<close>
  | Post string string blob string  \<comment> \<open>\<open>fetch\<close>: URL, form field, blob, file name\<close>

record world =
  objectURLs :: "(string \<times> blob) list"   \<comment> \<open>the blob URL store\<close>
  aborted :: "nat list"                  \<comment> \<open>the controllers whose signal is aborted\<close>
  controllers :: nat                     \<comment> \<open>how many \<open>AbortController\<close>s exist\<close>
  timeline :: "event list"

definition createObjectURL :: "platform \<Rightarrow> blob \<Rightarrow> world \<Rightarrow> string \<times> world" where
  "createObjectURL p b w =
     (let u = blob_url p (length (objectURLs w))
      in (u, w\<lparr>objectURLs := objectURLs w @ [(u, b)]\<rparr>))"

definition emit :: "event \<Rightarrow> world \<Rightarrow> world" where
  "emit e w = w\<lparr>timeline := timeline w @ [e]\<rparr>"

subsection \<open>The service\<close>

record WebhookService =
  abortController :: "nat option"

definition MAX_RETRIES :: nat where "MAX_RETRIES = 3"
definition TIMEOUT_MS :: nat where "TIMEOUT_MS = 20000"
definition RETRY_DELAY_MS :: nat where "RETRY_DELAY_MS = 1000"

text \<open>\<open>/Android|webOS|iPhone|iPad|iPod|BlackBerry|IEMobile|Opera Mini/i.test(navigator.userAgent)\<close>\<close>

definition isMobile :: "platform \<Rightarrow> bool" where
  "isMobile p =
     (\<exists>pat \<in> set [''Android'', ''webOS'', ''iPhone'', ''iPad'', ''iPod'', ''BlackBerry'',
                   ''IEMobile'', ''Opera Mini''].
        str_includes (map lower (userAgent p)) (map lower pat))"

text \<open>Lines 37 to 42: the blob that is uploaded.\<close>

definition processedBlob :: "platform \<Rightarrow> blob \<Rightarrow> blob" where
  "processedBlob p audioBlob =
     (if isMobile p \<and> \<not> str_includes (type audioBlob) ''webm''
      then \<lparr>content = content audioBlob, type = ''audio/webm''\<rparr>
      else audioBlob)"

subsection \<open>Normalising the reply (lines 114 to 156)\<close>

text \<open>
  \<open>s.replace(/^data:audio\/[^;]+;base64,/, '')\<close>: the class \<open>[^;]+\<close> stops at the first
  semicolon, so the pattern matches in one way at most.
\<close>

definition strip_data_url :: "string \<Rightarrow> string" where
  "strip_data_url s =
     (if startsWith s ''data:audio/'' then
        (let rest = drop 11 s;
             subtype = takeWhile (\<lambda>c. c \<noteq> CHR '';'') rest;
             after = dropWhile (\<lambda>c. c \<noteq> CHR '';'') rest
         in if subtype \<noteq> [] \<and> startsWith after '';base64,'' then drop 8 after else s)
      else s)"

definition no_answer :: string where
  "no_answer = ''Vastausta ei saatu.''"

text \<open>\<open>v.answer || v.response || 'Vastausta ei saatu.'\<close>\<close>

definition answer_of :: "jsval \<Rightarrow> js_error + jsval" where
  "answer_of v =
     (case getprop v ''answer'' of
        Inl e \<Rightarrow> Inl e
      | Inr a \<Rightarrow>
          (case getprop v ''response'' of
             Inl e \<Rightarrow> Inl e
           | Inr r \<Rightarrow> Inr (js_or (js_or a r) (JStr no_answer))))"

text \<open>
  The condition of line 115, \<open>data.success && data.textResponse && data.audioResponse\<close>;
  reading \<open>data.success\<close> throws when \<open>data\<close> is \<open>null\<close>.
\<close>

definition structured_condition :: "jsval \<Rightarrow> js_error + jsval" where
  "structured_condition data =
     (case getprop data ''success'' of
        Inl e \<Rightarrow> Inl e
      | Inr s \<Rightarrow>
          (case getprop data ''textResponse'' of
             Inl e \<Rightarrow> Inl e
           | Inr t \<Rightarrow>
               (case getprop data ''audioResponse'' of
                  Inl e \<Rightarrow> Inl e
                | Inr a \<Rightarrow> Inr (js_and (js_and s t) a))))"

text \<open>Lines 117 to 123: the text payload, parsed, or wrapped when it does not parse.\<close>

definition textData_of :: "platform \<Rightarrow> jsval \<Rightarrow> jsval" where
  "textData_of p textResponse =
     (case JSON_parse p textResponse of
        Some v \<Rightarrow> v
      | None \<Rightarrow> JObj [(''answer'', textResponse)])"

text \<open>
  Lines 126 to 152. The \<open>catch\<close> of line 145 takes a failure of \<open>atob\<close> and a failure
  of line 142 alike; line 147 then reads \<open>textData\<close> again, which throws again when it threw
  before, with the object URL already registered.
\<close>

definition structured_reply :: "platform \<Rightarrow> jsval \<Rightarrow> jsval \<Rightarrow> world \<Rightarrow> (js_error + jsval) \<times> world" where
  "structured_reply p textData audioResponse w =
     (case audioResponse of
        JStr a \<Rightarrow>
          if truthy audioResponse then
            (case atob p (strip_data_url a) of
               None \<Rightarrow> (answer_of textData, w)
             | Some binaryString \<Rightarrow>
                 (let bytes = map (\<lambda>c. of_char c :: 8 word) binaryString;
                      audioBlob = \<lparr>content = bytes, type = ''audio/mpeg''\<rparr>;
                      (audioUrl, w') = createObjectURL p audioBlob w
                  in case answer_of textData of
                       Inl e \<Rightarrow> (answer_of textData, w')
                     | Inr t \<Rightarrow>
                         (Inr (JStr (JSON_stringify p
                            (JObj [(''text'', t), (''audioUrl'', JStr audioUrl)]))), w')))
          else (answer_of textData, w)
      | _ \<Rightarrow> (answer_of textData, w))"

definition normalize_reply :: "platform \<Rightarrow> jsval \<Rightarrow> world \<Rightarrow> (js_error + jsval) \<times> world" where
  "normalize_reply p data w =
     (case structured_condition data of
        Inl e \<Rightarrow> (Inl e, w)
      | Inr c \<Rightarrow>
          if truthy c then
            (case getprop data ''textResponse'' of
               Inl e \<Rightarrow> (Inl e, w)
             | Inr t \<Rightarrow>
                 (case getprop data ''audioResponse'' of
                    Inl e \<Rightarrow> (Inl e, w)
                  | Inr a \<Rightarrow> structured_reply p (textData_of p t) a w))
          else (answer_of data, w))"

subsection \<open>One attempt (lines 59 to 156)\<close>

text \<open>Lines 91 to 112: the body as JSON, else as text parsed again, else wrapped.\<close>

definition parse_body :: "platform \<Rightarrow> response \<Rightarrow> js_error + jsval" where
  "parse_body p r =
     (case body r of
        Json data \<Rightarrow> Inr data
      | Text error textData \<Rightarrow>
          (case JSON_parse p (JStr textData) of
             Some data \<Rightarrow> Inr data
           | None \<Rightarrow> Inr (JObj [(''textResponse'', JStr textData)]))
      | Unreadable error textError \<Rightarrow>
          Inl (Error (''Failed to parse response: '' @ error_toString error)))"

text \<open>Lines 59, 60 and 68: the form with the blob in the field \<open>data0\<close> is posted.\<close>

definition upload :: "string \<Rightarrow> blob \<Rightarrow> event" where
  "upload webhookUrl b = Post webhookUrl ''data0'' b ''speech.webm''"

definition attempt ::
  "platform \<Rightarrow> string \<Rightarrow> blob \<Rightarrow> nat \<Rightarrow> world \<Rightarrow> (js_error + jsval) \<times> world" where
  "attempt p webhookUrl b retries w =
     (let w1 = emit (upload webhookUrl b) w
      in case fetch p retries of
           Rejects e \<Rightarrow> (Inl e, w1)
         | TimesOut \<Rightarrow> (Inl (Error ''Request timeout''), w1)
         | Responds r \<Rightarrow>
             if \<not> ok r then
               (Inl (Error (''Palvelin vastasi virheell'' @ [CHR 0xE4] @ '': ''
                            @ decimal (status r) @ '' '' @ statusText r)), w1)
             else
               (case parse_body p r of
                  Inl e \<Rightarrow> (Inl e, w1)
                | Inr data \<Rightarrow> normalize_reply p data w1))"

subsection \<open>The retry loop (lines 51 to 191)\<close>

definition request_cancelled :: js_error where
  "request_cancelled = Error (''Pyynt'' @ [CHR 0xF6] @ '' keskeytetty'')"

definition network_problem :: js_error where
  "network_problem =
     Error (''Verkkoyhteydess'' @ [CHR 0xE4] @ '' on ongelma. Tarkista internetyhteys.'')"

definition server_failed :: js_error where
  "server_failed = Error (''Palvelinyhteys ep'' @ [CHR 0xE4] @ ''onnistui'')"

text \<open>Lines 163 to 174: the error thrown after the last attempt.\<close>

definition final_error :: "js_error \<Rightarrow> js_error" where
  "final_error error =
     (if name error = ''AbortError'' then request_cancelled
      else if instanceof_TypeError error \<and> str_includes (message error) ''Failed to fetch''
      then network_problem
      else server_failed)"

text \<open>Lines 53 to 57: the wait before a retry.\<close>

definition backoff :: "nat \<Rightarrow> world \<Rightarrow> world" where
  "backoff retries w =
     (if retries > 0 then emit (Sleep (RETRY_DELAY_MS * 2 ^ (retries - 1))) w else w)"

function send_loop ::
  "platform \<Rightarrow> string \<Rightarrow> blob \<Rightarrow> nat \<Rightarrow> js_error option \<Rightarrow> world \<Rightarrow> (js_error + jsval) \<times> world" where
  "send_loop p webhookUrl b retries lastError w =
     (if retries \<le> MAX_RETRIES then
        (case attempt p webhookUrl b retries (backoff retries w) of
              (Inr v, w2) \<Rightarrow> (Inr v, w2)
            | (Inl error, w2) \<Rightarrow>
                if retries = MAX_RETRIES then (Inl (final_error error), w2)
                else send_loop p webhookUrl b (retries + 1) (Some error) w2)
      else
        (case lastError of
           Some e \<Rightarrow> (Inl e, w)
         | None \<Rightarrow> (Inl (Error ''Unexpected error in webhook service''), w)))"
  by pat_completeness auto
termination
  by (relation "measure (\<lambda>(p, u, b, retries, e, w). MAX_RETRIES + 1 - retries)") auto

subsection \<open>\<open>sendAudioToWebhook\<close> and \<open>cleanup\<close>\<close>

definition abort :: "nat \<Rightarrow> world \<Rightarrow> world" where
  "abort c w = w\<lparr>aborted := c # aborted w\<rparr>"

text \<open>
  Lines 24 to 31: the controller of the previous call is aborted and a new one is installed.
  What the signal does to a pending \<open>fetch\<close> is part of the outcome of that \<open>fetch\<close>.
\<close>

definition begin_call :: "WebhookService \<Rightarrow> world \<Rightarrow> nat \<times> WebhookService \<times> world" where
  "begin_call this w =
     (let w1 = (case abortController this of Some c \<Rightarrow> abort c w | None \<Rightarrow> w);
          controller = controllers w1
      in (controller, this\<lparr>abortController := Some controller\<rparr>,
          w1\<lparr>controllers := controllers w1 + 1\<rparr>))"

text \<open>
  The result is how the promise settles (\<open>Inl\<close>: rejected), the service and the world
  afterwards.
\<close>

definition sendAudioToWebhook ::
  "platform \<Rightarrow> WebhookService \<Rightarrow> blob \<Rightarrow> string \<Rightarrow> world
     \<Rightarrow> (js_error + jsval) \<times> WebhookService \<times> world" where
  "sendAudioToWebhook p this audioBlob webhookUrl w =
     (let (controller, this', w1) = begin_call this w;
          (r, w2) = send_loop p webhookUrl (processedBlob p audioBlob) 0 None w1
      in (r, this', w2))"

definition cleanup :: "WebhookService \<Rightarrow> world \<Rightarrow> WebhookService \<times> world" where
  "cleanup this w =
     (case abortController this of
        Some c \<Rightarrow> (this\<lparr>abortController := None\<rparr>, abort c w)
      | None \<Rightarrow> (this, w))"

subsection \<open>The condition of the structured branch, from the code and from the specification\<close>

text \<open>Whether line 115 enters the branch of the structured reply.\<close>

definition takes_structured :: "jsval \<Rightarrow> bool" where
  "takes_structured data =
     (case structured_condition data of Inl e \<Rightarrow> False | Inr c \<Rightarrow> truthy c)"

text \<open>
  The condition in the words of the specification: \<open>success === true\<close> and both payloads
  present. The payloads are the properties \<open>textResponse\<close> and \<open>audioResponse\<close> of the
  reply, which the data model of the specification calls \<open>textResponsePayload\<close> and
  \<open>audioResponsePayload\<close>.
\<close>

definition present :: "jsval \<Rightarrow> string \<Rightarrow> bool" where
  "present data k = (case getprop data k of Inl e \<Rightarrow> False | Inr v \<Rightarrow> v \<noteq> JUndefined)"

definition spec_structured :: "jsval \<Rightarrow> bool" where
  "spec_structured data =
     (getprop data ''success'' = Inr (JBool True)
      \<and> present data ''textResponse'' \<and> present data ''audioResponse'')"

subsection \<open>A browser for the examples\<close>

text \<open>
  The functions of the platform on the arguments that the examples use: \<open>JSON.parse\<close> of two
  texts and of a text that is not JSON, \<open>JSON.stringify\<close> of an object of two strings
  without characters to escape, \<open>atob\<close> of a valid and of an invalid string.
\<close>

definition parse_table :: "jsval \<Rightarrow> jsval option" where
  \<open>parse_table v =
     (if v = JStr ''{"answer":"ok"}'' then Some (JObj [(''answer'', JStr ''ok'')])
      else if v = JStr ''null'' then Some JNull
      else None)\<close>

definition stringify_table :: "jsval \<Rightarrow> string" where
  \<open>stringify_table v =
     (case v of
        JObj [(k1, JStr v1), (k2, JStr v2)] \<Rightarrow>
          ''{"'' @ k1 @ ''":"'' @ v1 @ ''","'' @ k2 @ ''":"'' @ v2 @ ''"}''
      | _ \<Rightarrow> [])\<close>

definition atob_table :: "string \<Rightarrow> string option" where
  "atob_table s = (if s = ''AAA='' then Some [CHR 0x00, CHR 0x00] else None)"

definition browser :: "string \<Rightarrow> (nat \<Rightarrow> fetch_outcome) \<Rightarrow> platform" where
  "browser ua net =
     \<lparr>userAgent = ua, JSON_parse = parse_table, JSON_stringify = stringify_table,
      atob = atob_table, blob_url = (\<lambda>n. ''blob:https://app.example/'' @ decimal n),
      fetch = net\<rparr>"

definition desktop :: string where
  "desktop = ''Mozilla/5.0 (X11; Linux x86_64) Chrome/120.0''"

definition phone :: string where
  "phone = ''Mozilla/5.0 (iPhone; CPU iPhone OS 17_0 like Mac OS X) Safari/604.1''"

definition fresh_world :: world where
  "fresh_world = \<lparr>objectURLs = [], aborted = [], controllers = 0, timeline = []\<rparr>"

definition new_service :: WebhookService where
  "new_service = \<lparr>abortController = None\<rparr>"

definition recording :: blob where
  "recording = \<lparr>content = [1, 2, 3], type = ''audio/mp4''\<rparr>"

text \<open>A response with status 200 whose body is JSON for \<open>d\<close>.\<close>

definition reply :: "jsval \<Rightarrow> fetch_outcome" where
  "reply d = Responds \<lparr>status = 200, statusText = ''OK'', body = Json d\<rparr>"

text \<open>A response with status 200 whose body is the text \<open>raw\<close>, which is not JSON.\<close>

definition plain_reply :: "string \<Rightarrow> fetch_outcome" where
  "plain_reply raw =
     Responds \<lparr>status = 200, statusText = ''OK'',
               body = Text (SyntaxError ''Unexpected token'') raw\<rparr>"

text \<open>A response with status 200 whose body cannot be read.\<close>

definition broken_reply :: fetch_outcome where
  "broken_reply =
     Responds \<lparr>status = 200, statusText = ''OK'',
               body = Unreadable (TypeError ''network error'') (TypeError ''network error'')\<rparr>"

text \<open>A response with an error status and an empty body.\<close>

definition error_reply :: "nat \<Rightarrow> string \<Rightarrow> fetch_outcome" where
  "error_reply code reason =
     Responds \<lparr>status = code, statusText = reason,
               body = Text (SyntaxError ''Unexpected end of JSON input'') []\<rparr>"

text \<open>A desktop browser in front of a server that answers every request with status 503.\<close>

definition server_down :: platform where
  "server_down = browser desktop (\<lambda>i. error_reply 503 ''Service Unavailable'')"

text \<open>A phone whose call has been superseded: every \<open>fetch\<close> on its signal is aborted.\<close>

definition superseded :: platform where
  "superseded =
     browser phone (\<lambda>i. Rejects (DOMException ''AbortError'' ''The user aborted a request.''))"

text \<open>A phone whose call is superseded after two attempts that timed out.\<close>

definition superseded_late :: platform where
  "superseded_late =
     browser phone (\<lambda>i. if i < 2 then TimesOut
        else Rejects (DOMException ''AbortError'' ''The user aborted a request.''))"




text \<open>A server whose body cannot be read, and one that answers in plain text.\<close>

definition broken_body_server :: platform where
  "broken_body_server = browser desktop (\<lambda>i. broken_reply)"

definition plain_text_server :: platform where
  "plain_text_server = browser desktop (\<lambda>i. plain_reply ''Service is starting'')"

text \<open>A desktop browser without network, for the replies that are normalised directly.\<close>

definition offline :: platform where
  "offline = browser desktop (\<lambda>i. TimesOut)"

text \<open>
  Three replies: one with audio in a data URL of type \<open>audio/wav\<close>; one whose \<open>success\<close>
  is the string \<open>true\<close>; one whose text payload is the empty string.
\<close>

definition wav_reply :: jsval where
  "wav_reply = JObj [(''success'', JBool True), (''textResponse'', JStr ''Hei''),
                     (''audioResponse'', JStr ''data:audio/wav;base64,AAA='')]"

definition loose_reply :: jsval where
  "loose_reply = JObj [(''success'', JStr ''true''), (''textResponse'', JStr ''Hei''),
                       (''audioResponse'', JStr ''%%%''), (''answer'', JStr ''old'')]"

definition empty_text_reply :: jsval where
  "empty_text_reply = JObj [(''success'', JBool True), (''textResponse'', JStr []),
                            (''audioResponse'', JStr ''AAA=''), (''answer'', JStr ''old'')]"

text \<open>A server that lets three attempts time out and answers the fourth.\<close>

definition slow_server :: platform where
  \<open>slow_server =
     browser desktop (\<lambda>i. if i < 3 then TimesOut
        else reply (JObj [(''success'', JBool True), (''textResponse'', JStr ''{"answer":"ok"}''),
                          (''audioResponse'', JStr ''data:audio/mpeg;base64,AAA='')]))\<close>

text \<open>A server that answers in the old format with status 299.\<close>

definition status_299_server :: platform where
  "status_299_server =
     browser desktop (\<lambda>i. Responds \<lparr>status = 299, statusText = [],
                                     body = Json (JObj [(''answer'', JStr ''hello'')])\<rparr>)"





section \<open>Properties\<close>

subsection \<open>The retry loop\<close>

declare send_loop.simps [simp del]

lemma emit_fields [simp]:
  "timeline (emit e w) = timeline w @ [e]"
  "objectURLs (emit e w) = objectURLs w"
  "aborted (emit e w) = aborted w"
  "controllers (emit e w) = controllers w"
  by (simp_all add: emit_def)

lemma structured_reply_timeline:
  "timeline (snd (structured_reply p td a w)) = timeline w"
  by (auto simp: structured_reply_def createObjectURL_def Let_def
           split: jsval.splits option.splits sum.splits)

lemma normalize_timeline:
  "timeline (snd (normalize_reply p d w)) = timeline w"
  by (auto simp: normalize_reply_def structured_reply_timeline split: sum.splits)

lemma attempt_timeline:
  "timeline (snd (attempt p u b i w)) = timeline w @ [upload u b]"
  by (auto simp: attempt_def Let_def normalize_timeline
           split: fetch_outcome.splits sum.splits)

lemma send_loop_success:
  "retries \<le> MAX_RETRIES \<Longrightarrow> attempt p u b retries (backoff retries w) = (Inr v, w2)
     \<Longrightarrow> send_loop p u b retries le w = (Inr v, w2)"
  by (simp add: send_loop.simps)

lemma send_loop_retry:
  "retries < MAX_RETRIES \<Longrightarrow> attempt p u b retries (backoff retries w) = (Inl e, w2)
     \<Longrightarrow> send_loop p u b retries le w = send_loop p u b (retries + 1) (Some e) w2"
  by (simp add: send_loop.simps [of p u b retries])

lemma send_loop_final:
  "attempt p u b MAX_RETRIES (backoff MAX_RETRIES w) = (Inl e, w2)
     \<Longrightarrow> send_loop p u b MAX_RETRIES le w = (Inl (final_error e), w2)"
  by (simp add: send_loop.simps [of p u b MAX_RETRIES])


lemma failed_attempt:
  "isl (fst (attempt p u b i w)) \<Longrightarrow> \<exists>e w2. attempt p u b i w = (Inl e, w2)"
  by (cases "attempt p u b i w"; cases "fst (attempt p u b i w)") auto

lemma attempt_timeline':
  "attempt p u b i w = (r, w2) \<Longrightarrow> timeline w2 = timeline w @ [upload u b]"
  using attempt_timeline [of p u b i w] by simp

lemma backoff_timeline:
  "timeline (backoff 0 w) = timeline w"
  "0 < n \<Longrightarrow> timeline (backoff n w) = timeline w @ [Sleep (RETRY_DELAY_MS * 2 ^ (n - 1))]"
  by (simp_all add: backoff_def)

lemma send_loop_all_fail:
  assumes fails: "\<And>i w. i \<le> MAX_RETRIES \<Longrightarrow> isl (fst (attempt p u b i w))"
  shows "\<exists>e w3 w'. send_loop p u b 0 None w = (Inl (final_error e), w')
           \<and> attempt p u b MAX_RETRIES w3 = (Inl e, w')
           \<and> timeline w' = timeline w @
                [upload u b, Sleep (RETRY_DELAY_MS * 2 ^ 0),
                 upload u b, Sleep (RETRY_DELAY_MS * 2 ^ 1),
                 upload u b, Sleep (RETRY_DELAY_MS * 2 ^ 2),
                 upload u b]"
proof -
  obtain e0 w1 where a0: "attempt p u b 0 (backoff 0 w) = (Inl e0, w1)"
    using failed_attempt [OF fails [of 0 "backoff 0 w"]] by auto
  obtain e1 w2 where a1: "attempt p u b 1 (backoff 1 w1) = (Inl e1, w2)"
    using failed_attempt [OF fails [of 1 "backoff 1 w1"]] by (auto simp: MAX_RETRIES_def)
  obtain e2 w3 where a2: "attempt p u b 2 (backoff 2 w2) = (Inl e2, w3)"
    using failed_attempt [OF fails [of 2 "backoff 2 w2"]] by (auto simp: MAX_RETRIES_def)
  obtain e3 w4 where a3: "attempt p u b 3 (backoff 3 w3) = (Inl e3, w4)"
    using failed_attempt [OF fails [of 3 "backoff 3 w3"]] by (auto simp: MAX_RETRIES_def)
  have s0: "send_loop p u b 0 None w = send_loop p u b 1 (Some e0) w1"
    using send_loop_retry [of 0 p u b w e0 w1 None] a0 by (simp add: MAX_RETRIES_def)
  have s1: "send_loop p u b 1 (Some e0) w1 = send_loop p u b 2 (Some e1) w2"
    using send_loop_retry [of 1 p u b w1 e1 w2 "Some e0"] a1
    by (simp add: MAX_RETRIES_def eval_nat_numeral)
  have s2: "send_loop p u b 2 (Some e1) w2 = send_loop p u b 3 (Some e2) w3"
    using send_loop_retry [of 2 p u b w2 e2 w3 "Some e1"] a2
    by (simp add: MAX_RETRIES_def eval_nat_numeral)
  have s3: "send_loop p u b 3 (Some e2) w3 = (Inl (final_error e3), w4)"
    using send_loop_final [of p u b w3 e3 w4 "Some e2"] a3 by (simp add: MAX_RETRIES_def)
  have t1: "timeline w1 = timeline w @ [upload u b]"
    using attempt_timeline' [OF a0] by (simp add: backoff_timeline)
  have t2: "timeline w2 = timeline w1 @ [Sleep (RETRY_DELAY_MS * 2 ^ 0), upload u b]"
    using attempt_timeline' [OF a1] by (simp add: backoff_timeline)
  have t3: "timeline w3 = timeline w2 @ [Sleep (RETRY_DELAY_MS * 2 ^ 1), upload u b]"
    using attempt_timeline' [OF a2] by (simp add: backoff_timeline)
  have t4: "timeline w4 = timeline w3 @ [Sleep (RETRY_DELAY_MS * 2 ^ 2), upload u b]"
    using attempt_timeline' [OF a3] by (simp add: backoff_timeline)
  have "send_loop p u b 0 None w = (Inl (final_error e3), w4)"
    using s0 s1 s2 s3 by simp
  moreover have "attempt p u b MAX_RETRIES (backoff 3 w3) = (Inl e3, w4)"
    using a3 by (simp add: MAX_RETRIES_def)
  moreover have "timeline w4 = timeline w @
                [upload u b, Sleep (RETRY_DELAY_MS * 2 ^ 0),
                 upload u b, Sleep (RETRY_DELAY_MS * 2 ^ 1),
                 upload u b, Sleep (RETRY_DELAY_MS * 2 ^ 2),
                 upload u b]"
    using t1 t2 t3 t4 by simp
  ultimately show ?thesis by blast
qed

lemma final_error_cases:
  "final_error e \<in> {request_cancelled, network_problem, server_failed}"
  by (simp add: final_error_def)

lemma begin_call_timeline:
  "timeline (snd (snd (begin_call this w))) = timeline w"
  by (simp add: begin_call_def Let_def abort_def split: option.splits)

lemma begin_call_objectURLs:
  "objectURLs (snd (snd (begin_call this w))) = objectURLs w"
  by (simp add: begin_call_def Let_def abort_def split: option.splits)

lemma send_first_attempt:
  assumes "attempt p u (processedBlob p audioBlob) 0 (snd (snd (begin_call this w))) = (Inr v, w')"
  shows "sendAudioToWebhook p this audioBlob u w = (Inr v, fst (snd (begin_call this w)), w')"
proof -
  have "send_loop p u (processedBlob p audioBlob) 0 None (snd (snd (begin_call this w))) = (Inr v, w')"
    using assms by (intro send_loop_success) (simp_all add: backoff_def)
  then show ?thesis
    by (simp add: sendAudioToWebhook_def Let_def split_beta)
qed





text \<open>
  A server that answers every request with status 299, which lies outside the half-open
  range from 200 to 299: \<open>response.ok\<close> holds, the first attempt succeeds and the call
  resolves without a retry.
\<close>

theorem status_299_is_ok_counterexample:
  "sendAudioToWebhook status_299_server new_service recording ''https://hook.example/voice''
     fresh_world =
     (Inr (JStr ''hello''), \<lparr>abortController = Some 0\<rparr>,
      \<lparr>objectURLs = [], aborted = [], controllers = 1,
       timeline = [Post ''https://hook.example/voice'' ''data0'' recording ''speech.webm'']\<rparr>)"
  by code_simp

lemma error_status_fails:
  "fetch p i = Responds r \<Longrightarrow> \<not> ok r \<Longrightarrow> isl (fst (attempt p u b i w))"
  by (simp add: attempt_def Let_def)

text \<open>
  C1, as the code has it. When every attempt of a call fails, as when every response has a
  status below 200 or above 299, \<open>sendAudioToWebhook\<close> makes four attempts, the initial one
  and \<open>MAX_RETRIES = 3\<close> retries; before retry \<open>n\<close> it waits
  \<open>RETRY_DELAY_MS * 2 ^ (n - 1)\<close> milliseconds, a strictly increasing delay; after the
  last attempt has failed it rejects with one of the three final errors and does nothing more.
\<close>

theorem send_retries_with_backoff:
  assumes "\<And>i. i \<le> MAX_RETRIES \<Longrightarrow>
             (\<exists>r. fetch p i = Responds r \<and> (status r < 200 \<or> 299 < status r))
             \<or> (\<forall>v. isl (fst (attempt p webhookUrl (processedBlob p audioBlob) i v)))"
  shows "\<exists>e this' w'.
           sendAudioToWebhook p this audioBlob webhookUrl w = (Inl e, this', w')
           \<and> e \<in> {request_cancelled, network_problem, server_failed}
           \<and> timeline w' = timeline w @
                [Post webhookUrl ''data0'' (processedBlob p audioBlob) ''speech.webm'',
                 Sleep (RETRY_DELAY_MS * 2 ^ (1 - 1)),
                 Post webhookUrl ''data0'' (processedBlob p audioBlob) ''speech.webm'',
                 Sleep (RETRY_DELAY_MS * 2 ^ (2 - 1)),
                 Post webhookUrl ''data0'' (processedBlob p audioBlob) ''speech.webm'',
                 Sleep (RETRY_DELAY_MS * 2 ^ (3 - 1)),
                 Post webhookUrl ''data0'' (processedBlob p audioBlob) ''speech.webm'']
           \<and> MAX_RETRIES = 3
           \<and> RETRY_DELAY_MS * 2 ^ (1 - 1) < RETRY_DELAY_MS * 2 ^ (2 - 1)
           \<and> RETRY_DELAY_MS * 2 ^ (2 - 1) < RETRY_DELAY_MS * 2 ^ (3 - 1)"
proof -
  let ?b = "processedBlob p audioBlob"
  let ?w2 = "snd (snd (begin_call this w))"
  have fails: "isl (fst (attempt p webhookUrl ?b i v))" if "i \<le> MAX_RETRIES" for i v
    using assms [OF that]
  proof
    assume "\<exists>r. fetch p i = Responds r \<and> (status r < 200 \<or> 299 < status r)"
    then obtain r where "fetch p i = Responds r" and "\<not> ok r"
      by (auto simp: ok_def)
    then show ?thesis by (rule error_status_fails)
  next
    assume "\<forall>v. isl (fst (attempt p webhookUrl ?b i v))"
    then show ?thesis by simp
  qed
  have tl: "timeline ?w2 = timeline w"
    by (rule begin_call_timeline)
  obtain e w3 w' where
    run: "send_loop p webhookUrl ?b 0 None ?w2 = (Inl (final_error e), w')"
    and t: "timeline w' = timeline ?w2 @
                [upload webhookUrl ?b, Sleep (RETRY_DELAY_MS * 2 ^ 0),
                 upload webhookUrl ?b, Sleep (RETRY_DELAY_MS * 2 ^ 1),
                 upload webhookUrl ?b, Sleep (RETRY_DELAY_MS * 2 ^ 2),
                 upload webhookUrl ?b]"
    using send_loop_all_fail [of p webhookUrl ?b ?w2] fails by blast
  have "sendAudioToWebhook p this audioBlob webhookUrl w =
          (Inl (final_error e), fst (snd (begin_call this w)), w')"
    using run by (simp add: sendAudioToWebhook_def Let_def split_beta)
  moreover have "RETRY_DELAY_MS * 2 ^ (1 - 1) < RETRY_DELAY_MS * 2 ^ (2 - 1)"
    "RETRY_DELAY_MS * 2 ^ (2 - 1) < RETRY_DELAY_MS * 2 ^ (3 - 1)"
    by (simp_all add: RETRY_DELAY_MS_def)
  moreover have "MAX_RETRIES = 3"
    by (simp add: MAX_RETRIES_def)
  moreover have "timeline w' = timeline w @
                [Post webhookUrl ''data0'' ?b ''speech.webm'', Sleep (RETRY_DELAY_MS * 2 ^ (1 - 1)),
                 Post webhookUrl ''data0'' ?b ''speech.webm'', Sleep (RETRY_DELAY_MS * 2 ^ (2 - 1)),
                 Post webhookUrl ''data0'' ?b ''speech.webm'', Sleep (RETRY_DELAY_MS * 2 ^ (3 - 1)),
                 Post webhookUrl ''data0'' ?b ''speech.webm'']"
    using t tl by (simp add: upload_def)
  ultimately show ?thesis
    using final_error_cases [of e] by blast
qed

theorem send_retries_with_backoff_witness:
  "(\<forall>i. \<exists>r. fetch server_down i = Responds r \<and> status r = 503)
   \<and> (\<exists>e this' w'.
         sendAudioToWebhook server_down new_service recording ''https://hook.example/voice''
           fresh_world = (Inl e, this', w')
         \<and> e \<in> {request_cancelled, network_problem, server_failed}
         \<and> timeline w' = timeline fresh_world @
              [Post ''https://hook.example/voice'' ''data0'' (processedBlob server_down recording)
                 ''speech.webm'',
               Sleep (RETRY_DELAY_MS * 2 ^ (1 - 1)),
               Post ''https://hook.example/voice'' ''data0'' (processedBlob server_down recording)
                 ''speech.webm'',
               Sleep (RETRY_DELAY_MS * 2 ^ (2 - 1)),
               Post ''https://hook.example/voice'' ''data0'' (processedBlob server_down recording)
                 ''speech.webm'',
               Sleep (RETRY_DELAY_MS * 2 ^ (3 - 1)),
               Post ''https://hook.example/voice'' ''data0'' (processedBlob server_down recording)
                 ''speech.webm''])"
proof -
  have st: "\<exists>r. fetch server_down i = Responds r \<and> status r = 503" for i
    by (simp add: server_down_def browser_def error_reply_def)
  have h: "(\<exists>r. fetch server_down i = Responds r \<and> (status r < 200 \<or> 299 < status r))
           \<or> (\<forall>v. isl (fst (attempt server_down ''https://hook.example/voice''
                              (processedBlob server_down recording) i v)))" for i
    using st [of i] by auto
  from send_retries_with_backoff [of server_down "''https://hook.example/voice''" recording
        new_service fresh_world, OF h] st
  show ?thesis by blast
qed

lemma rejected_fetch_fails:
  "fetch p i = Rejects e \<Longrightarrow> attempt p u b i w = (Inl e, emit (upload u b) w)"
  by (simp add: attempt_def Let_def)

text \<open>
  An abort during the first attempt, with every later \<open>fetch\<close> aborted too, as the signal
  of the call stays aborted: the call waits 1000, 2000 and 4000 milliseconds and posts four
  times before it rejects. (The abort comes from outside the call, so the world of the call
  itself records no aborted controller.)
\<close>

theorem abort_is_retried_counterexample:
  "sendAudioToWebhook superseded new_service recording ''https://hook.example/voice'' fresh_world =
     (Inl request_cancelled, \<lparr>abortController = Some 0\<rparr>,
      \<lparr>objectURLs = [], aborted = [], controllers = 1,
       timeline =
         [upload ''https://hook.example/voice'' \<lparr>content = [1, 2, 3], type = ''audio/webm''\<rparr>,
          Sleep 1000,
          upload ''https://hook.example/voice'' \<lparr>content = [1, 2, 3], type = ''audio/webm''\<rparr>,
          Sleep 2000,
          upload ''https://hook.example/voice'' \<lparr>content = [1, 2, 3], type = ''audio/webm''\<rparr>,
          Sleep 4000,
          upload ''https://hook.example/voice'' \<lparr>content = [1, 2, 3], type = ''audio/webm''\<rparr>]\<rparr>)"
  by code_simp

text \<open>
  C2, as the code has it. The handler looks for an \<open>AbortError\<close> only after the last
  attempt. A call that is aborted at attempt \<open>k\<close>, every later \<open>fetch\<close> on its signal being
  aborted as well, goes through the remaining delays and attempts as after any other
  failure, and rejects with the error of a cancelled request after the last attempt.
\<close>

theorem abort_recognised_after_last_attempt:
  assumes k: "k \<le> MAX_RETRIES"
    and before: "\<And>i w. i < k \<Longrightarrow> isl (fst (attempt p webhookUrl (processedBlob p audioBlob) i w))"
    and after: "\<And>i. k \<le> i \<Longrightarrow> \<exists>m. fetch p i = Rejects (DOMException ''AbortError'' m)"
  shows "\<exists>this' w'.
           sendAudioToWebhook p this audioBlob webhookUrl w = (Inl request_cancelled, this', w')
           \<and> timeline w' = timeline w @
                [upload webhookUrl (processedBlob p audioBlob), Sleep (RETRY_DELAY_MS * 2 ^ (1 - 1)),
                 upload webhookUrl (processedBlob p audioBlob), Sleep (RETRY_DELAY_MS * 2 ^ (2 - 1)),
                 upload webhookUrl (processedBlob p audioBlob), Sleep (RETRY_DELAY_MS * 2 ^ (3 - 1)),
                 upload webhookUrl (processedBlob p audioBlob)]"
proof -
  let ?b = "processedBlob p audioBlob"
  let ?w2 = "snd (snd (begin_call this w))"
  have tl: "timeline ?w2 = timeline w"
    by (rule begin_call_timeline)
  have fails: "isl (fst (attempt p webhookUrl ?b i v))" for i v
  proof (cases "i < k")
    case True
    then show ?thesis by (rule before)
  next
    case False
    then obtain m where "fetch p i = Rejects (DOMException ''AbortError'' m)"
      using after [of i] by auto
    then show ?thesis by (simp add: rejected_fetch_fails)
  qed
  obtain e w3 w' where
    run: "send_loop p webhookUrl ?b 0 None ?w2 = (Inl (final_error e), w')"
    and last: "attempt p webhookUrl ?b MAX_RETRIES w3 = (Inl e, w')"
    and t: "timeline w' = timeline ?w2 @
                [upload webhookUrl ?b, Sleep (RETRY_DELAY_MS * 2 ^ 0),
                 upload webhookUrl ?b, Sleep (RETRY_DELAY_MS * 2 ^ 1),
                 upload webhookUrl ?b, Sleep (RETRY_DELAY_MS * 2 ^ 2),
                 upload webhookUrl ?b]"
    using send_loop_all_fail [of p webhookUrl ?b ?w2] fails by blast
  obtain m where "fetch p MAX_RETRIES = Rejects (DOMException ''AbortError'' m)"
    using after [of MAX_RETRIES] k by auto
  then have "e = DOMException ''AbortError'' m"
    using last by (simp add: rejected_fetch_fails)
  then have "final_error e = request_cancelled"
    by (simp add: final_error_def)
  then have "sendAudioToWebhook p this audioBlob webhookUrl w =
          (Inl request_cancelled, fst (snd (begin_call this w)), w')"
    using run by (simp add: sendAudioToWebhook_def Let_def split_beta)
  moreover have "timeline w' = timeline w @
                [upload webhookUrl ?b, Sleep (RETRY_DELAY_MS * 2 ^ (1 - 1)),
                 upload webhookUrl ?b, Sleep (RETRY_DELAY_MS * 2 ^ (2 - 1)),
                 upload webhookUrl ?b, Sleep (RETRY_DELAY_MS * 2 ^ (3 - 1)),
                 upload webhookUrl ?b]"
    using t tl by simp
  ultimately show ?thesis by blast
qed

theorem abort_recognised_after_last_attempt_witness:
  "(2::nat) \<le> MAX_RETRIES
   \<and> fetch superseded_late 0 = TimesOut \<and> fetch superseded_late 1 = TimesOut
   \<and> (\<forall>i. \<exists>m. fetch superseded_late (2 + i) = Rejects (DOMException ''AbortError'' m))
   \<and> (\<exists>this' w'.
         sendAudioToWebhook superseded_late new_service recording ''https://hook.example/voice''
           fresh_world = (Inl request_cancelled, this', w')
         \<and> timeline w' = timeline fresh_world @
              [upload ''https://hook.example/voice'' (processedBlob superseded_late recording),
               Sleep (RETRY_DELAY_MS * 2 ^ (1 - 1)),
               upload ''https://hook.example/voice'' (processedBlob superseded_late recording),
               Sleep (RETRY_DELAY_MS * 2 ^ (2 - 1)),
               upload ''https://hook.example/voice'' (processedBlob superseded_late recording),
               Sleep (RETRY_DELAY_MS * 2 ^ (3 - 1)),
               upload ''https://hook.example/voice'' (processedBlob superseded_late recording)])"
proof -
  have le: "(2::nat) \<le> MAX_RETRIES" by (simp add: MAX_RETRIES_def)
  have t: "fetch superseded_late i = TimesOut" if "i < 2" for i
    using that by (simp add: superseded_late_def browser_def)
  have before: "isl (fst (attempt superseded_late ''https://hook.example/voice''
                  (processedBlob superseded_late recording) i w))" if "i < 2" for i w
    using t [OF that] by (simp add: attempt_def Let_def)
  have after: "\<exists>m. fetch superseded_late i = Rejects (DOMException ''AbortError'' m)"
    if "2 \<le> i" for i
    using that by (simp add: superseded_late_def browser_def)
  from abort_recognised_after_last_attempt [of 2 superseded_late "''https://hook.example/voice''"
        recording new_service fresh_world, OF le before after] t [of 0] t [of 1] after le
  show ?thesis by simp
qed

subsection \<open>The value a call resolves with\<close>







lemma takes_structuredD:
  assumes "takes_structured data"
  shows "\<exists>s t a. getprop data ''success'' = Inr s \<and> getprop data ''textResponse'' = Inr t
           \<and> getprop data ''audioResponse'' = Inr a \<and> truthy s \<and> truthy t \<and> truthy a
           \<and> structured_condition data = Inr a"
  using assms
  by (auto simp: takes_structured_def structured_condition_def js_and_def
           split: sum.splits if_splits)

lemma normalize_structured:
  assumes "takes_structured data" "getprop data ''textResponse'' = Inr t"
    "getprop data ''audioResponse'' = Inr a"
  shows "normalize_reply p data w = structured_reply p (textData_of p t) a w"
  using takes_structuredD [OF assms(1)] assms(2,3)
  by (auto simp: normalize_reply_def)




subsection \<open>A body that is not JSON\<close>

text \<open>
  A body with status 200 that can be read neither as JSON nor as text, on every attempt:
  line 110 throws, each attempt is retried and the call rejects after the fourth.
\<close>

theorem unreadable_body_counterexample:
  "sendAudioToWebhook broken_body_server new_service recording ''https://hook.example/voice''
     fresh_world =
     (Inl server_failed, \<lparr>abortController = Some 0\<rparr>,
      \<lparr>objectURLs = [], aborted = [], controllers = 1,
       timeline =
         [upload ''https://hook.example/voice'' recording, Sleep 1000,
          upload ''https://hook.example/voice'' recording, Sleep 2000,
          upload ''https://hook.example/voice'' recording, Sleep 4000,
          upload ''https://hook.example/voice'' recording]\<rparr>)"
  by code_simp

lemma wrapped_text_normalize:
  "normalize_reply p (JObj [(''textResponse'', JStr textData)]) w = (Inr (JStr no_answer), w)"
  by (simp add: normalize_reply_def structured_condition_def answer_of_def js_and_def js_or_def
        no_answer_def)

lemma final_error_parse_failure:
  "final_error (Error m) = server_failed"
  by (simp add: final_error_def)

text \<open>
  C6, as the code has it, for a reply with status 2xx on the attempt \<open>retries\<close>. When
  \<open>response.json()\<close> rejects and the text of the body is not JSON either, the text is wrapped
  as \<open>{ textResponse: textData }\<close> and the call resolves with the string
  \<open>Vastausta ei saatu.\<close>; when the text is JSON, the parsed value is normalised as usual.
  When the body cannot be read as text either, the attempt fails: before the last attempt
  the loop goes on to the next one, on the last attempt the call rejects.
\<close>

theorem unparsable_body:
  assumes f: "fetch p retries = Responds r" and okr: "ok r" and le: "retries \<le> MAX_RETRIES"
  shows "(\<forall>error textData.
            body r = Text error textData \<and> JSON_parse p (JStr textData) = None \<longrightarrow>
              parse_body p r = Inr (JObj [(''textResponse'', JStr textData)])
              \<and> send_loop p u b retries lastError w =
                  (Inr (JStr no_answer), emit (upload u b) (backoff retries w)))
       \<and> (\<forall>error textData data.
            body r = Text error textData \<and> JSON_parse p (JStr textData) = Some data \<longrightarrow>
              attempt p u b retries w = normalize_reply p data (emit (upload u b) w))
       \<and> (\<forall>error textError.
            body r = Unreadable error textError \<longrightarrow>
              send_loop p u b retries lastError w =
                (if retries = MAX_RETRIES
                 then (Inl server_failed, emit (upload u b) (backoff retries w))
                 else send_loop p u b (retries + 1)
                        (Some (Error (''Failed to parse response: '' @ error_toString error)))
                        (emit (upload u b) (backoff retries w))))"
proof (intro conjI allI impI)
  fix error textData
  assume h: "body r = Text error textData \<and> JSON_parse p (JStr textData) = None"
  then show pb: "parse_body p r = Inr (JObj [(''textResponse'', JStr textData)])"
    by (simp add: parse_body_def)
  have "attempt p u b retries (backoff retries w) =
          (Inr (JStr no_answer), emit (upload u b) (backoff retries w))"
    using f okr pb by (simp add: attempt_def Let_def wrapped_text_normalize)
  then show "send_loop p u b retries lastError w =
               (Inr (JStr no_answer), emit (upload u b) (backoff retries w))"
    using le by (rule send_loop_success [rotated])
next
  fix error textData data
  assume "body r = Text error textData \<and> JSON_parse p (JStr textData) = Some data"
  then show "attempt p u b retries w = normalize_reply p data (emit (upload u b) w)"
    using f okr by (simp add: attempt_def Let_def parse_body_def)
next
  fix error textError
  assume h: "body r = Unreadable error textError"
  let ?e = "Error (''Failed to parse response: '' @ error_toString error)"
  have a: "attempt p u b retries (backoff retries w) = (Inl ?e, emit (upload u b) (backoff retries w))"
    using f okr h by (simp add: attempt_def Let_def parse_body_def)
  show "send_loop p u b retries lastError w =
          (if retries = MAX_RETRIES
           then (Inl server_failed, emit (upload u b) (backoff retries w))
           else send_loop p u b (retries + 1) (Some ?e) (emit (upload u b) (backoff retries w)))"
  proof (cases "retries = MAX_RETRIES")
    case True
    then show ?thesis
      using send_loop_final [of p u b w ?e _ lastError] a
      by (simp add: final_error_parse_failure)
  next
    case False
    then have "retries < MAX_RETRIES" using le by simp
    then show ?thesis
      using send_loop_retry [OF _ a, of lastError] False by simp
  qed
qed

theorem unparsable_body_witness:
  "fetch plain_text_server 0 = plain_reply ''Service is starting''
   \<and> JSON_parse plain_text_server (JStr ''Service is starting'') = None
   \<and> send_loop plain_text_server ''https://hook.example/voice'' recording 0 None fresh_world =
       (Inr (JStr no_answer),
        emit (upload ''https://hook.example/voice'' recording) (backoff 0 fresh_world))
   \<and> fetch broken_body_server 3 = broken_reply
   \<and> send_loop broken_body_server ''https://hook.example/voice'' recording 3 None fresh_world =
       (Inl server_failed,
        emit (upload ''https://hook.example/voice'' recording) (backoff 3 fresh_world))"
proof -
  let ?r = "\<lparr>status = 200, statusText = ''OK'',
             body = Text (SyntaxError ''Unexpected token'') ''Service is starting''\<rparr>"
  let ?r' = "\<lparr>status = 200, statusText = ''OK'',
             body = Unreadable (TypeError ''network error'') (TypeError ''network error'')\<rparr>"
  have f: "fetch plain_text_server 0 = Responds ?r"
    by (simp add: plain_text_server_def browser_def plain_reply_def)
  have f': "fetch broken_body_server 3 = Responds ?r'"
    by (simp add: broken_body_server_def browser_def broken_reply_def)
  have np: "JSON_parse plain_text_server (JStr ''Service is starting'') = None"
    by code_simp
  have okr: "ok ?r" "ok ?r'" by (simp_all add: ok_def)
  have le: "(0::nat) \<le> MAX_RETRIES" "(3::nat) \<le> MAX_RETRIES" by (simp_all add: MAX_RETRIES_def)
  from unparsable_body [OF f okr(1) le(1), of "''https://hook.example/voice''" recording None fresh_world]
       unparsable_body [OF f' okr(2) le(2), of "''https://hook.example/voice''" recording None fresh_world]
       f f' np
  show ?thesis by (simp add: plain_reply_def broken_reply_def MAX_RETRIES_def)
qed

subsection \<open>The branch of the structured reply\<close>

text \<open>
  Line 115 tests truthiness. A reply whose \<open>success\<close> is the string \<open>true\<close> enters the
  structured branch although \<open>success === true\<close> is false (the result is the text payload,
  not the field \<open>answer\<close>); a reply with \<open>success === true\<close> whose text payload is present
  but empty takes the old path.
\<close>

theorem structured_condition_counterexample:
  "takes_structured loose_reply \<and> \<not> spec_structured loose_reply
   \<and> normalize_reply offline loose_reply fresh_world = (Inr (JStr ''Hei''), fresh_world)
   \<and> spec_structured empty_text_reply \<and> \<not> takes_structured empty_text_reply
   \<and> normalize_reply offline empty_text_reply fresh_world = (Inr (JStr ''old''), fresh_world)"
  by code_simp

text \<open>
  C7, as the code has it. For a reply that is not \<open>null\<close>, the structured branch is taken
  exactly when \<open>success\<close>, \<open>textResponse\<close> and \<open>audioResponse\<close> are all truthy, and the old
  path otherwise; the condition of the specification implies it when both payloads are
  truthy.
\<close>

theorem structured_branch_iff_truthy:
  assumes "getprop data ''success'' = Inr s" and "getprop data ''textResponse'' = Inr t"
    and "getprop data ''audioResponse'' = Inr a"
  shows "takes_structured data = (truthy s \<and> truthy t \<and> truthy a)
       \<and> normalize_reply p data w =
           (if truthy s \<and> truthy t \<and> truthy a
            then structured_reply p (textData_of p t) a w
            else (answer_of data, w))
       \<and> (spec_structured data \<and> truthy t \<and> truthy a \<longrightarrow> takes_structured data)"
  using assms
  by (auto simp: takes_structured_def structured_condition_def normalize_reply_def js_and_def
        spec_structured_def)

theorem structured_branch_iff_truthy_witness:
  "getprop wav_reply ''success'' = Inr (JBool True)
   \<and> getprop wav_reply ''textResponse'' = Inr (JStr ''Hei'')
   \<and> getprop wav_reply ''audioResponse'' = Inr (JStr ''data:audio/wav;base64,AAA='')
   \<and> spec_structured wav_reply
   \<and> takes_structured wav_reply
   \<and> normalize_reply offline wav_reply fresh_world =
       structured_reply offline (textData_of offline (JStr ''Hei''))
         (JStr ''data:audio/wav;base64,AAA='') fresh_world"
proof -
  have g: "getprop wav_reply ''success'' = Inr (JBool True)"
    "getprop wav_reply ''textResponse'' = Inr (JStr ''Hei'')"
    "getprop wav_reply ''audioResponse'' = Inr (JStr ''data:audio/wav;base64,AAA='')"
    by (simp_all add: wav_reply_def)
  have sp: "spec_structured wav_reply" by code_simp
  from structured_branch_iff_truthy [OF g, of offline fresh_world] g sp
  show ?thesis by simp
qed

subsection \<open>The decoded audio\<close>

text \<open>
  The prefix of a data URL is removed whatever audio subtype it names; a string without
  the prefix is decoded as it is.
\<close>

lemma startsWith_append [simp]: "startsWith (xs @ ys) xs"
  by (induction xs) auto

lemma strip_data_url_prefix:
  assumes "subtype \<noteq> []" and "CHR '';'' \<notin> set subtype"
  shows "strip_data_url (''data:audio/'' @ subtype @ '';base64,'' @ payload) = payload"
proof -
  let ?rest = "subtype @ '';base64,'' @ payload"
  have s: "startsWith (''data:audio/'' @ ?rest) ''data:audio/''"
    by (rule startsWith_append)
  have d: "drop 11 (''data:audio/'' @ ?rest) = ?rest"
    by simp
  have tw: "takeWhile (\<lambda>c. c \<noteq> CHR '';'') ?rest = subtype"
    using assms(2) by (induction subtype) auto
  have dw: "dropWhile (\<lambda>c. c \<noteq> CHR '';'') ?rest = '';base64,'' @ payload"
    using assms(2) by (induction subtype) auto
  have sw: "startsWith ('';base64,'' @ payload) '';base64,''"
    by (rule startsWith_append)
  show ?thesis
    unfolding strip_data_url_def
    using s assms(1) sw by (simp only: d tw dw Let_def if_True) simp
qed

lemma strip_data_url_other:
  "\<not> startsWith s ''data:audio/'' \<Longrightarrow> strip_data_url s = s"
  by (simp add: strip_data_url_def)

text \<open>
  C10. Whenever the structured branch decodes the audio string, the blob registered under
  the new object URL holds the decoded bytes and has the type \<open>audio/mpeg\<close>, whatever the
  prefix of the string declared.
\<close>

theorem decoded_audio_is_mpeg:
  assumes "takes_structured data"
    and "getprop data ''audioResponse'' = Inr (JStr a)"
    and "atob p (strip_data_url a) = Some binaryString"
  shows "objectURLs (snd (normalize_reply p data w)) =
           objectURLs w @ [(blob_url p (length (objectURLs w)),
             \<lparr>content = map of_char binaryString, type = ''audio/mpeg''\<rparr>)]"
proof -
  obtain t where t: "getprop data ''textResponse'' = Inr t" and tr: "truthy (JStr a)"
    using takes_structuredD [OF assms(1)] assms(2) by auto
  have "normalize_reply p data w = structured_reply p (textData_of p t) (JStr a) w"
    using assms(1) t assms(2) by (rule normalize_structured)
  then show ?thesis
    using assms(3) tr
    by (auto simp: structured_reply_def createObjectURL_def Let_def split: sum.splits)
qed

theorem decoded_audio_is_mpeg_witness:
  "takes_structured wav_reply
   \<and> getprop wav_reply ''audioResponse'' = Inr (JStr ''data:audio/wav;base64,AAA='')
   \<and> strip_data_url ''data:audio/wav;base64,AAA='' = ''AAA=''
   \<and> atob offline ''AAA='' = Some [CHR 0x00, CHR 0x00]
   \<and> objectURLs (snd (normalize_reply offline wav_reply fresh_world)) =
       [(''blob:https://app.example/0'', \<lparr>content = [0, 0], type = ''audio/mpeg''\<rparr>)]"
proof -
  have ts: "takes_structured wav_reply" by code_simp
  have g: "getprop wav_reply ''audioResponse'' = Inr (JStr ''data:audio/wav;base64,AAA='')"
    by (simp add: wav_reply_def)
  have st: "strip_data_url ''data:audio/wav;base64,AAA='' = ''AAA=''" by code_simp
  have at: "atob offline ''AAA='' = Some [CHR 0x00, CHR 0x00]" by code_simp
  have at': "atob offline (strip_data_url ''data:audio/wav;base64,AAA='') = Some [CHR 0x00, CHR 0x00]"
    using st at by simp
  have u: "blob_url offline 0 = ''blob:https://app.example/0''" by code_simp
  from decoded_audio_is_mpeg [OF ts g at', of fresh_world] ts g st at u
  show ?thesis by (simp add: fresh_world_def)
qed

subsection \<open>Decoding a reply twice\<close>

text \<open>The URLs of the browser of the examples are distinct, as those of a real one are.\<close>

declare decimal.simps [simp del]












subsection \<open>The blob that is uploaded\<close>

lemma send_loop_events:
  "\<exists>evs. timeline (snd (send_loop p u b retries le w)) = timeline w @ evs
         \<and> (\<forall>e \<in> set evs. e = upload u b \<or> (\<exists>n. e = Sleep n))"
proof (induction p u b retries le w rule: send_loop.induct)
  case (1 p u b retries le w)
  show ?case
  proof (cases "retries \<le> MAX_RETRIES")
    case False
    then show ?thesis
      by (simp add: send_loop.simps [of p u b retries] split: option.splits)
  next
    case True
    obtain r w2 where a: "attempt p u b retries (backoff retries w) = (r, w2)"
      by (cases "attempt p u b retries (backoff retries w)")
    have t2: "timeline w2 = timeline (backoff retries w) @ [upload u b]"
      using attempt_timeline' [OF a] .
    obtain pre where pre: "timeline (backoff retries w) = timeline w @ pre"
      "\<forall>e \<in> set pre. \<exists>n. e = Sleep n"
      by (cases "retries > 0") (auto simp: backoff_def)
    show ?thesis
    proof (cases r)
      case (Inr v)
      then have "send_loop p u b retries le w = (Inr v, w2)"
        using True a by (simp add: send_loop_success)
      then show ?thesis
        using t2 pre by auto
    next
      case (Inl e)
      show ?thesis
      proof (cases "retries = MAX_RETRIES")
        case True
        then have "send_loop p u b retries le w = (Inl (final_error e), w2)"
          using a Inl by (simp add: send_loop_final)
        then show ?thesis
          using t2 pre by auto
      next
        case False
        then have step: "send_loop p u b retries le w = send_loop p u b (retries + 1) (Some e) w2"
          using True a Inl by (simp add: send_loop_retry)
        obtain evs where "timeline (snd (send_loop p u b (retries + 1) (Some e) w2)) = timeline w2 @ evs"
          "\<forall>x \<in> set evs. x = upload u b \<or> (\<exists>n. x = Sleep n)"
          using "1.IH" [OF True a [symmetric] Inl False] by blast
        then show ?thesis
          using step t2 pre by auto
      qed
    qed
  qed
qed

lemma send_loop_first_event:
  "\<exists>evs. timeline (snd (send_loop p u b 0 le w)) = timeline w @ upload u b # evs
         \<and> (\<forall>e \<in> set evs. e = upload u b \<or> (\<exists>n. e = Sleep n))"
proof -
  obtain r w2 where a: "attempt p u b 0 (backoff 0 w) = (r, w2)"
    by (cases "attempt p u b 0 (backoff 0 w)")
  have t2: "timeline w2 = timeline w @ [upload u b]"
    using attempt_timeline' [OF a] by (simp add: backoff_timeline)
  show ?thesis
  proof (cases r)
    case (Inr v)
    then have "send_loop p u b 0 le w = (Inr v, w2)"
      using a by (simp add: send_loop_success)
    then show ?thesis using t2 by simp
  next
    case (Inl e)
    then have step: "send_loop p u b 0 le w = send_loop p u b (0 + 1) (Some e) w2"
      using a by (intro send_loop_retry) (simp_all add: MAX_RETRIES_def)
    obtain evs where "timeline (snd (send_loop p u b (0 + 1) (Some e) w2)) = timeline w2 @ evs"
      "\<forall>x \<in> set evs. x = upload u b \<or> (\<exists>n. x = Sleep n)"
      using send_loop_events by blast
    then show ?thesis
      using step t2 by simp
  qed
qed

text \<open>
  C9. Every request of a call posts, in the field \<open>data0\<close> and under the file name
  \<open>speech.webm\<close>, a blob that has the bytes of the recording; its type is \<open>audio/webm\<close>
  when the user agent is a mobile one and the type of the recording does not contain
  \<open>webm\<close>, and the type of the recording otherwise. The first thing a call does is such a
  request, and it does nothing but such requests and waits.
\<close>

theorem uploads_processed_blob:
  "\<exists>evs. timeline (snd (snd (sendAudioToWebhook p this audioBlob webhookUrl w))) =
           timeline w @
             Post webhookUrl ''data0''
               \<lparr>content = content audioBlob,
                type = (if isMobile p \<and> \<not> str_includes (type audioBlob) ''webm''
                        then ''audio/webm'' else type audioBlob)\<rparr>
               ''speech.webm'' # evs
         \<and> (\<forall>e \<in> set evs.
               e = Post webhookUrl ''data0''
                     \<lparr>content = content audioBlob,
                      type = (if isMobile p \<and> \<not> str_includes (type audioBlob) ''webm''
                              then ''audio/webm'' else type audioBlob)\<rparr>
                     ''speech.webm''
               \<or> (\<exists>n. e = Sleep n))"
proof -
  have "snd (snd (sendAudioToWebhook p this audioBlob webhookUrl w)) =
          snd (send_loop p webhookUrl (processedBlob p audioBlob) 0 None (snd (snd (begin_call this w))))"
    by (simp add: sendAudioToWebhook_def Let_def split_beta)
  moreover have "processedBlob p audioBlob =
        \<lparr>content = content audioBlob,
         type = (if isMobile p \<and> \<not> str_includes (type audioBlob) ''webm''
                 then ''audio/webm'' else type audioBlob)\<rparr>"
    by (simp add: processedBlob_def)
  ultimately show ?thesis
    using send_loop_first_event [of p webhookUrl "processedBlob p audioBlob" None
            "snd (snd (begin_call this w))"]
    by (simp add: begin_call_timeline upload_def)
qed

theorem uploads_processed_blob_witness:
  "isMobile superseded \<and> \<not> str_includes (type recording) ''webm''
   \<and> \<not> isMobile server_down
   \<and> (\<exists>evs. timeline (snd (snd (sendAudioToWebhook superseded new_service recording
                ''https://hook.example/voice'' fresh_world))) =
           timeline fresh_world @
             Post ''https://hook.example/voice'' ''data0''
               \<lparr>content = [1, 2, 3], type = ''audio/webm''\<rparr> ''speech.webm'' # evs)
   \<and> (\<exists>evs. timeline (snd (snd (sendAudioToWebhook server_down new_service recording
                ''https://hook.example/voice'' fresh_world))) =
           timeline fresh_world @
             Post ''https://hook.example/voice'' ''data0''
               \<lparr>content = [1, 2, 3], type = ''audio/mp4''\<rparr> ''speech.webm'' # evs)"
proof -
  have m: "isMobile superseded" "\<not> isMobile server_down" by code_simp+
  have t: "\<not> str_includes (type recording) ''webm''" by code_simp
  have c: "content recording = [1, 2, 3]" "type recording = ''audio/mp4''"
    by (simp_all add: recording_def)
  from uploads_processed_blob [of superseded new_service recording "''https://hook.example/voice''" fresh_world]
       uploads_processed_blob [of server_down new_service recording "''https://hook.example/voice''" fresh_world]
       m t c
  show ?thesis by auto
qed

subsection \<open>The controller of the service\<close>

text \<open>
  Lines 26 to 31, run for a second call: the controller of the first call is aborted, and
  the service holds a new controller that is not.
\<close>

lemma begin_call_aborts_previous:
  assumes "abortController this = Some c" and "c < controllers w"
    and "\<forall>a \<in> set (aborted w). a < controllers w"
  shows "begin_call this w =
           (controllers w, this\<lparr>abortController := Some (controllers w)\<rparr>,
            w\<lparr>aborted := c # aborted w, controllers := controllers w + 1\<rparr>)"
    and "c \<in> set (aborted (snd (snd (begin_call this w))))"
    and "controllers w \<notin> set (aborted (snd (snd (begin_call this w))))"
    and "controllers w \<noteq> c"
  using assms by (auto simp: begin_call_def abort_def Let_def)

lemma cleanup_aborts:
  "abortController this = Some c \<Longrightarrow>
     cleanup this w = (this\<lparr>abortController := None\<rparr>, w\<lparr>aborted := c # aborted w\<rparr>)"
  by (simp add: cleanup_def abort_def)












subsection \<open>The scenario of the specification\<close>

text \<open>
  Three attempts time out and the fourth is answered with a structured reply: the call
  resolves with the stringified pair of the text and a new object URL, after delays of
  1000, 2000 and 4000 milliseconds.
\<close>

lemma end_to_end_scenario:
  \<open>(case sendAudioToWebhook slow_server new_service recording ''https://hook.example/voice''
          fresh_world of
      (r, this', w') \<Rightarrow>
        r = Inr (JStr ''{"text":"ok","audioUrl":"blob:https://app.example/0"}'')
        \<and> objectURLs w' =
            [(''blob:https://app.example/0'', \<lparr>content = [0, 0], type = ''audio/mpeg''\<rparr>)]
        \<and> timeline w' =
            [upload ''https://hook.example/voice'' recording, Sleep 1000,
             upload ''https://hook.example/voice'' recording, Sleep 2000,
             upload ''https://hook.example/voice'' recording, Sleep 4000,
             upload ''https://hook.example/voice'' recording])\<close>
  by code_simp

end
